theory Spec2Isabelle
  imports Main
begin

section \<open>Data model of \<^verbatim>\<open>rag_core.py\<close>\<close>

text \<open>
  A LangChain \<^verbatim>\<open>Document\<close> carries the chunk text (\<^verbatim>\<open>page_content\<close>) and a metadata
  dictionary. The functions modelled here read the keys \<^verbatim>\<open>source\<close>, \<^verbatim>\<open>filename\<close> and
  \<^verbatim>\<open>page\<close> only. \<^verbatim>\<open>source\<close> is the path string the PDF loaders store and \<^verbatim>\<open>filename\<close> is
  the string \<^verbatim>\<open>Path(src).name\<close> written at line 151, so metadata values are strings; a page
  number stands as its decimal rendering, which is all \<^verbatim>\<open>_get_source_label\<close> uses of it.
  Strings are lists of bytes in the ASCII range.
\<close>

record document =
  page_content :: string
  metadata :: "string \<rightharpoonup> string"

text \<open>\<^verbatim>\<open>d.get(key, default)\<close> on a dictionary.\<close>

definition dict_get :: "('k \<rightharpoonup> 'v) \<Rightarrow> 'k \<Rightarrow> 'v \<Rightarrow> 'v" where
  "dict_get m key dflt = (case m key of None \<Rightarrow> dflt | Some v \<Rightarrow> v)"

text \<open>
  The Python slice \<^verbatim>\<open>xs[:n]\<close> for an integer \<open>n\<close>: a negative bound counts from the end
  of the list.
\<close>

definition slice_to :: "'a list \<Rightarrow> int \<Rightarrow> 'a list" where
  "slice_to xs n =
     (if 0 \<le> n then take (nat n) xs else take (length xs - nat (- n)) xs)"

text \<open>\<^verbatim>\<open>RETRIEVER_K = 8\<close> (line 31).\<close>

definition RETRIEVER_K :: int where
  "RETRIEVER_K = 8"

text \<open>
  The exceptions the modelled code raises or lets through: \<^verbatim>\<open>ValueError\<close> with its
  message, a failure of the embedding provider or the language model, and a failure of
  Chroma, whose text names the cause and is not the library's wording.
\<close>

datatype error =
    ValueError string
  | ProviderError string
  | ChromaError string

section \<open>The hybrid retriever (\<^verbatim>\<open>_HybridRetriever\<close>, lines 173-199)\<close>

text \<open>
  The deduplication key built inside \<^verbatim>\<open>_add\<close>:
  \<^verbatim>\<open>(doc.page_content[:100], doc.metadata.get("source", ""))\<close>.
\<close>

definition doc_key :: "document \<Rightarrow> string \<times> string" where
  "doc_key doc = (take 100 (page_content doc), dict_get (metadata doc) ''source'' '''')"

text \<open>
  The local state of \<^verbatim>\<open>_get_relevant_documents\<close>: the set \<^verbatim>\<open>seen\<close> and the list
  \<^verbatim>\<open>result\<close>. The closure \<^verbatim>\<open>_add\<close> updates both.
\<close>

type_synonym hybrid_state = "(string \<times> string) set \<times> document list"

definition hybrid_add :: "document \<Rightarrow> hybrid_state \<Rightarrow> hybrid_state" where
  "hybrid_add doc st =
     (if doc_key doc \<notin> fst st
      then (insert (doc_key doc) (fst st), snd st @ [doc])
      else st)"

text \<open>
  The merge of \<^verbatim>\<open>_get_relevant_documents\<close>, given the lists the two branches returned
  (\<^verbatim>\<open>f_sem.result()\<close> and \<^verbatim>\<open>f_bm25.result()\<close>). The two \<^verbatim>\<open>for\<close> loops are folds of
  \<^verbatim>\<open>_add\<close>; the bound of the second slice is computed from the length of \<^verbatim>\<open>result\<close>
  after the first loop, before the second loop runs.
\<close>

definition merge_results :: "int \<Rightarrow> document list \<Rightarrow> document list \<Rightarrow> document list" where
  "merge_results k sem bm25 =
     (let st0 = ({}, []);
          st1 = fold hybrid_add (slice_to sem (k div 2)) st0;
          st2 = fold hybrid_add (slice_to bm25 (k - int (length (snd st1)))) st1
      in slice_to (snd st2) k)"

text \<open>
  \<^verbatim>\<open>_get_relevant_documents\<close> itself: both branches are submitted to the pool, the
  semantic future is read first, and an exception of a branch is re-raised by its
  \<^verbatim>\<open>result()\<close>. A branch is a function from the query to what its \<^verbatim>\<open>invoke\<close> returns.
\<close>

type_synonym search = "string \<Rightarrow> error + document list"

definition get_relevant_documents :: "search \<Rightarrow> search \<Rightarrow> int \<Rightarrow> search" where
  "get_relevant_documents semantic bm25 k query =
     (case semantic query of
        Inl e \<Rightarrow> Inl e
      | Inr sem \<Rightarrow>
          (case bm25 query of
             Inl e \<Rightarrow> Inl e
           | Inr kw \<Rightarrow> Inr (merge_results k sem kw)))"

subsection \<open>The merge as the specification words it\<close>

text \<open>
  Spec section 4.6: from the semantic branch take up to \<open>K/2\<close> results in their returned
  order; then from the keyword branch take results in their returned order until the
  combined count reaches \<open>K\<close>, skipping any chunk whose deduplication identity was already
  added. \<open>spec_skip_seen\<close> appends the chunks of a list whose identity is new;
  \<open>spec_fill\<close> does the same and stops once the count has reached \<open>K\<close>. The skipping is
  read as applying to the semantic results too, as the deduplication property of the
  spec's section 8 requires: the semantic step appends the first \<open>K/2\<close> semantic results
  whose identity is new, the keyword step fills up to \<open>K\<close>.
\<close>

fun spec_skip_seen :: "document list \<Rightarrow> document list \<Rightarrow> document list" where
  "spec_skip_seen acc [] = acc"
| "spec_skip_seen acc (d # ds) =
     (if doc_key d \<in> doc_key ` set acc
      then spec_skip_seen acc ds
      else spec_skip_seen (acc @ [d]) ds)"

fun spec_fill :: "nat \<Rightarrow> document list \<Rightarrow> document list \<Rightarrow> document list" where
  "spec_fill K acc [] = acc"
| "spec_fill K acc (d # ds) =
     (if K \<le> length acc then acc
      else if doc_key d \<in> doc_key ` set acc
      then spec_fill K acc ds
      else spec_fill K (acc @ [d]) ds)"

definition spec_hybrid :: "nat \<Rightarrow> document list \<Rightarrow> document list \<Rightarrow> document list" where
  "spec_hybrid K sem kw = spec_fill K (spec_skip_seen [] (take (K div 2) sem)) kw"

section \<open>Strings\<close>

text \<open>\<^verbatim>\<open>str.lower()\<close> on ASCII text.\<close>

definition lower_char :: "char \<Rightarrow> char" where
  "lower_char c =
     (case map_of (zip ''ABCDEFGHIJKLMNOPQRSTUVWXYZ'' ''abcdefghijklmnopqrstuvwxyz'') c of
        None \<Rightarrow> c
      | Some l \<Rightarrow> l)"

definition lower :: "string \<Rightarrow> string" where
  "lower s = map lower_char s"

text \<open>
  \<^verbatim>\<open>str.strip()\<close>: the ASCII characters Python counts as whitespace are removed at both
  ends.
\<close>

definition is_space :: "char \<Rightarrow> bool" where
  "is_space c =
     (c \<in> set [CHR 0x20, CHR 0x09, CHR 0x0A, CHR 0x0B, CHR 0x0C, CHR 0x0D,
                CHR 0x1C, CHR 0x1D, CHR 0x1E, CHR 0x1F])"

definition strip :: "string \<Rightarrow> string" where
  "strip s = rev (dropWhile is_space (rev (dropWhile is_space s)))"

text \<open>The substring test \<^verbatim>\<open>sub in s\<close>.\<close>

primrec str_in :: "string \<Rightarrow> string \<Rightarrow> bool" where
  "str_in sub [] = (sub = [])"
| "str_in sub (c # cs) = (take (length sub) (c # cs) = sub \<or> str_in sub cs)"

text \<open>\<^verbatim>\<open>sep.join(parts)\<close>.\<close>

fun join :: "string \<Rightarrow> string list \<Rightarrow> string" where
  "join sep [] = []"
| "join sep [x] = x"
| "join sep (x # y # ys) = x @ sep @ join sep (y # ys)"

text \<open>The decimal rendering of a natural number, as an f-string formats it.\<close>

definition digit_char :: "nat \<Rightarrow> char" where
  "digit_char d = ''0123456789'' ! d"

function str_nat :: "nat \<Rightarrow> string" where
  "str_nat n = (if n < 10 then [digit_char n] else str_nat (n div 10) @ [digit_char (n mod 10)])"
  by pat_completeness auto
termination
  by (relation "measure id") auto

declare str_nat.simps [simp del]

definition newline :: string where
  "newline = [CHR 0x0A]"

text \<open>
  \<^verbatim>\<open>Path(s).name\<close>, the final component of a path string, in pathlib's POSIX flavour:
  the separator is \<^verbatim>\<open>/\<close>, empty components and \<^verbatim>\<open>.\<close> components are dropped, and a
  path with no component left has the empty name.
\<close>

primrec split_on :: "char \<Rightarrow> string \<Rightarrow> string list" where
  "split_on sep [] = [[]]"
| "split_on sep (c # cs) =
     (if c = sep then [] # split_on sep cs
      else (case split_on sep cs of
              [] \<Rightarrow> [[c]]
            | p # ps \<Rightarrow> (c # p) # ps))"

definition path_name :: "string \<Rightarrow> string" where
  "path_name s =
     (let parts = filter (\<lambda>p. p \<noteq> [] \<and> p \<noteq> ''.'') (split_on CHR ''/'' s)
      in if parts = [] then [] else last parts)"

section \<open>Choosing the retriever (\<^verbatim>\<open>_create_retriever\<close>, lines 202-214)\<close>

text \<open>
  A vector store is modelled by its \<^verbatim>\<open>similarity_search\<close> method: query, \<open>k\<close> and the
  optional filter \<^verbatim>\<open>{"filename": {"$eq": f}}\<close>, given as \<open>Some f\<close>.
  \<^verbatim>\<open>vectorstore.as_retriever(search_kwargs={"k": k})\<close> is the retriever whose \<^verbatim>\<open>invoke\<close>
  runs that search with no filter.
\<close>

type_synonym vectorstore = "string \<Rightarrow> int \<Rightarrow> string option \<Rightarrow> error + document list"

definition as_retriever :: "vectorstore \<Rightarrow> int \<Rightarrow> search" where
  "as_retriever vs k query = vs query k None"

text \<open>
  The constructor \<^verbatim>\<open>_HybridRetriever.__init__\<close> (lines 176-180). \<^verbatim>\<open>BaseRetriever\<close> is a
  pydantic model and declares no field named \<^verbatim>\<open>semantic\<close>, \<^verbatim>\<open>bm25\<close> or \<^verbatim>\<open>k\<close>: after
  \<^verbatim>\<open>super().__init__()\<close> the assignment \<^verbatim>\<open>self.semantic = semantic_retriever\<close> of line 178
  raises \<^verbatim>\<open>ValueError\<close>, so the constructor returns no retriever.
\<close>

definition no_field_message :: "string \<Rightarrow> string \<Rightarrow> string" where
  "no_field_message cls field =
     [CHR 0x22] @ cls @ [CHR 0x22] @ '' object has no field '' @ [CHR 0x22] @ field @ [CHR 0x22]"

definition hybrid_retriever_init :: "search \<Rightarrow> search \<Rightarrow> int \<Rightarrow> error + search" where
  "hybrid_retriever_init semantic_retriever bm25_retriever k =
     Inl (ValueError (no_field_message ''_HybridRetriever'' ''semantic''))"

text \<open>
  \<^verbatim>\<open>BM25Retriever.from_documents(chunks, k=...)\<close> belongs to LangChain: it is a parameter
  that either raises or returns the keyword retriever. \<^verbatim>\<open>if use_hybrid and chunks\<close> is
  false for \<^verbatim>\<open>None\<close> and for the empty list. Both constructions sit in the \<^verbatim>\<open>try\<close> of
  lines 209-213, whose handler falls through to \<^verbatim>\<open>return semantic_retriever\<close>.
\<close>

definition create_retriever ::
  "(document list \<Rightarrow> int \<Rightarrow> error + search) \<Rightarrow> vectorstore \<Rightarrow> document list option \<Rightarrow> bool \<Rightarrow> search"
where
  "create_retriever bm25_from_documents vs chunks use_hybrid =
     (let semantic_retriever = as_retriever vs RETRIEVER_K
      in case chunks of
           None \<Rightarrow> semantic_retriever
         | Some cs \<Rightarrow>
             if use_hybrid \<and> cs \<noteq> []
             then (case bm25_from_documents cs (RETRIEVER_K div 2) of
                     Inr bm25_retriever \<Rightarrow>
                       (case hybrid_retriever_init semantic_retriever bm25_retriever RETRIEVER_K of
                          Inr hybrid \<Rightarrow> hybrid
                        | Inl e \<Rightarrow> semantic_retriever)
                   | Inl e \<Rightarrow> semantic_retriever)
             else semantic_retriever)"

section \<open>Questions about the corpus (lines 217-237)\<close>

definition TERMOS_BASE :: "string list" where
  "TERMOS_BASE = [''na base'', ''na pasta'', ''na pasta base'', ''base de'']"

definition TERMOS_ARQUIVO :: "string list" where
  "TERMOS_ARQUIVO =
     [''pdf'', ''pdfs'', ''arquivo'', ''arquivos'', ''documento'', ''documentos'']"

definition is_question_about_pdfs_in_base :: "string \<Rightarrow> bool" where
  "is_question_about_pdfs_in_base question =
     (let q = strip (lower question);
          tem_base = (list_ex (\<lambda>t. str_in t q) TERMOS_BASE
                      \<or> (str_in ''base'' q \<and> (str_in ''esta'' q \<or> str_in ''tem'' q)));
          tem_arquivo = (list_ex (\<lambda>t. str_in t q) TERMOS_ARQUIVO
                         \<or> str_in ''quais'' q \<or> str_in ''lista'' q)
      in tem_base
         \<and> (tem_arquivo \<or> str_in ''quais'' q \<or> str_in ''lista'' q \<or> str_in ''o que'' q))"

text \<open>
  What the code reads of the corpus directory: the string of \<^verbatim>\<open>pdf_dir.resolve()\<close>,
  whether it exists, and the value of \<^verbatim>\<open>sorted(pdf_dir_resolved.glob("**/*.pdf"))\<close> as
  path strings.
\<close>

record pdf_dir =
  resolved :: string
  dir_exists :: bool
  pdf_files :: "string list"

definition list_pdfs_in_base :: "pdf_dir \<Rightarrow> string \<times> document list" where
  "list_pdfs_in_base pd =
     (if \<not> dir_exists pd
      then (''A pasta Base nao foi encontrada em '' @ resolved pd @ ''.'', [])
      else if pdf_files pd = []
      then (''Nenhum arquivo PDF encontrado na pasta Base.'', [])
      else
        (let linhas = map (\<lambda>(i, p). str_nat (i + 1) @ ''. '' @ path_name p)
                          (enumerate 0 (pdf_files pd));
             resposta = ''Os seguintes '' @ str_nat (length (pdf_files pd))
                        @ '' arquivo(s) PDF estao na base:'' @ newline @ newline
                        @ join newline linhas
         in (resposta, [])))"

section \<open>Answering a question (\<^verbatim>\<open>answer_question\<close>, lines 240-308)\<close>

definition get_source_label :: "document \<Rightarrow> string" where
  "get_source_label doc =
     (let source = dict_get (metadata doc) ''source'' '''';
          page = dict_get (metadata doc) ''page'' ''''
      in if source \<noteq> []
         then (let nome_arquivo = path_name source
               in if strip page \<noteq> []
                  then nome_arquivo @ '' (pagina '' @ page @ '')''
                  else nome_arquivo)
         else ''Documento'')"

text \<open>
  The calls \<^verbatim>\<open>answer_question\<close> makes to its collaborators, in the order it makes them:
  \<^verbatim>\<open>retriever.invoke\<close>, \<^verbatim>\<open>vectorstore.similarity_search\<close> and the chain of prompt and
  language model. The model returns the log of these calls beside the result.
\<close>

datatype call =
    RetrieverInvoke string
  | SimilaritySearch string int "string option"
  | LlmInvoke string string string

definition NOTHING_FOUND :: string where
  "NOTHING_FOUND =
     ''Nenhum trecho relevante encontrado nos documentos. ''
     @ ''Tente reformular a pergunta ou defina REINDEX=true no .env para reindexar.''"

text \<open>
  Lines 269-283, the retrieval step. \<^verbatim>\<open>if filter_source and vectorstore\<close> is false for
  a filter that is \<^verbatim>\<open>None\<close> or the empty string and for a vector store that is
  \<^verbatim>\<open>None\<close>. The filtered search sits in a \<^verbatim>\<open>try\<close> whose handler sets \<^verbatim>\<open>docs = []\<close>; the
  unfiltered search of the fallback does not.
\<close>

definition source_matches :: "string \<Rightarrow> document \<Rightarrow> bool" where
  "source_matches filter_source d =
     (str_in filter_source (dict_get (metadata d) ''source'' '''')
      \<or> dict_get (metadata d) ''filename'' '''' = filter_source)"

definition retrieve_docs ::
  "string \<Rightarrow> search \<Rightarrow> string option \<Rightarrow> vectorstore option
     \<Rightarrow> (error + document list) \<times> call list"
where
  "retrieve_docs question retriever filter_source vectorstore =
     (case (filter_source, vectorstore) of
        (Some f, Some vs) \<Rightarrow>
          if f \<noteq> [] then
            (let docs = (case vs question RETRIEVER_K (Some f) of
                           Inl e \<Rightarrow> []
                         | Inr ds \<Rightarrow> ds);
                 calls = [SimilaritySearch question RETRIEVER_K (Some f)]
             in if docs = [] then
                  (case vs question (RETRIEVER_K * 2) None of
                     Inl e \<Rightarrow>
                       (Inl e, calls @ [SimilaritySearch question (RETRIEVER_K * 2) None])
                   | Inr all_docs \<Rightarrow>
                       (Inr (slice_to (filter (source_matches f) all_docs) RETRIEVER_K),
                        calls @ [SimilaritySearch question (RETRIEVER_K * 2) None]))
                else (Inr docs, calls))
          else (retriever question, [RetrieverInvoke question])
      | _ \<Rightarrow> (retriever question, [RetrieverInvoke question]))"

text \<open>Lines 291-300: the context block and the text of the last five history turns.\<close>

definition build_context :: "document list \<Rightarrow> string" where
  "build_context docs =
     join (newline @ newline)
       (map (\<lambda>(i, doc). ''[Fonte '' @ str_nat (i + 1) @ '' - '' @ get_source_label doc @ '']''
                          @ newline @ page_content doc)
            (enumerate 0 docs))"

definition build_hist_text :: "(string \<times> string) list option \<Rightarrow> string" where
  "build_hist_text history =
     (case history of
        None \<Rightarrow> []
      | Some h \<Rightarrow>
          if h = [] then []
          else concat
            ((newline @ newline @ ''Historico da conversa (para contexto):'' @ newline)
             # map (\<lambda>(p, r). ''P: '' @ p @ newline @ ''R: '' @ r @ newline @ newline)
                   (drop (length h - 5) h)))"

text \<open>
  \<^verbatim>\<open>answer_question\<close>. The language model is a parameter: from the question, the context
  and the history text to the content of its response, or an exception.
\<close>

definition answer_question ::
  "string \<Rightarrow> search \<Rightarrow> (string \<Rightarrow> string \<Rightarrow> string \<Rightarrow> error + string) \<Rightarrow> pdf_dir
     \<Rightarrow> (string \<times> string) list option \<Rightarrow> string option \<Rightarrow> vectorstore option
     \<Rightarrow> (error + string \<times> document list) \<times> call list"
where
  "answer_question question retriever llm pd history filter_source vectorstore =
     (if is_question_about_pdfs_in_base question
      then (Inr (fst (list_pdfs_in_base pd), []), [])
      else
        (case retrieve_docs question retriever filter_source vectorstore of
           (Inl e, calls) \<Rightarrow> (Inl e, calls)
         | (Inr docs, calls) \<Rightarrow>
             if docs = [] then (Inr (NOTHING_FOUND, []), calls)
             else
               (let context = build_context docs;
                    hist_text = build_hist_text history;
                    calls' = calls @ [LlmInvoke question context hist_text]
                in case llm question context hist_text of
                     Inl e \<Rightarrow> (Inl e, calls')
                   | Inr content \<Rightarrow> (Inr (content, docs), calls'))))"

section \<open>Opening or building the index (\<^verbatim>\<open>_build_vectorstore\<close>, lines 99-170)\<close>

text \<open>
  The persist directory holds what this function and Chroma write there: the file
  \<^verbatim>\<open>chunks.pkl\<close>, whose content unpickles to a chunk list or does not unpickle, and the
  entries of the vector index, each a chunk with its embedding vector. \<open>None\<close> is a file
  that is not there, and a directory that holds neither is empty. A directory that does
  not exist is \<open>None\<close>.
\<close>

datatype pickle_file = Pickled "document list" | Unreadable

record 'v persist_dir =
  chunks_pkl :: "pickle_file option"
  chroma_data :: "(document \<times> 'v) list option"

definition empty_dir :: "'v persist_dir" where
  "empty_dir = \<lparr>chunks_pkl = None, chroma_data = None\<rparr>"

text \<open>\<^verbatim>\<open>persist_dir.mkdir(parents=True, exist_ok=True)\<close>.\<close>

definition mkdir :: "'v persist_dir option \<Rightarrow> 'v persist_dir" where
  "mkdir st = (case st of None \<Rightarrow> empty_dir | Some d \<Rightarrow> d)"

text \<open>\<^verbatim>\<open>any(persist_dir.iterdir())\<close>.\<close>

definition non_empty :: "'v persist_dir \<Rightarrow> bool" where
  "non_empty d = (\<not> (chunks_pkl d = None \<and> chroma_data d = None))"

text \<open>
  The vector store handle: \<^verbatim>\<open>Chroma(persist_directory=...)\<close> opens the entries the
  directory holds.
\<close>

datatype 'v chroma = Chroma (entries: "(document \<times> 'v) list")

definition stored_entries :: "'v persist_dir \<Rightarrow> (document \<times> 'v) list" where
  "stored_entries d = (case chroma_data d of None \<Rightarrow> [] | Some es \<Rightarrow> es)"

text \<open>
  What the function takes from outside the repository: the environment variable
  \<^verbatim>\<open>REINDEX\<close>, the corpus directory, the two PDF loaders, the text splitter and the
  embedding provider, which either raises or returns one vector for each chunk.
\<close>

record 'v build_env =
  reindex_var :: "string option"
  corpus :: pdf_dir
  pymupdf_load :: "string \<Rightarrow> error + document list"
  pypdf_load :: "string \<Rightarrow> error + document list"
  split_documents :: "document list \<Rightarrow> document list"
  embed :: "document list \<Rightarrow> error + 'v list"

text \<open>\<^verbatim>\<open>os.getenv("REINDEX", "").lower() in ("true", "1", "yes")\<close>.\<close>

definition force_reindex :: "('v, 'e) build_env_scheme \<Rightarrow> bool" where
  "force_reindex env =
     (lower (case reindex_var env of None \<Rightarrow> [] | Some v \<Rightarrow> v) \<in> set [''true'', ''1'', ''yes''])"

text \<open>\<^verbatim>\<open>_load_pdf\<close>: PyMuPDF first, PyPDF on failure, no page when both fail.\<close>

definition load_pdf :: "('v, 'e) build_env_scheme \<Rightarrow> string \<Rightarrow> document list" where
  "load_pdf env path =
     (case pymupdf_load env path of
        Inr ds \<Rightarrow> ds
      | Inl e \<Rightarrow> (case pypdf_load env path of Inr ds \<Rightarrow> ds | Inl e' \<Rightarrow> []))"

text \<open>Lines 148-151: the \<^verbatim>\<open>filename\<close> metadata of a page.\<close>

definition set_filename :: "document \<Rightarrow> document" where
  "set_filename doc =
     (let src = dict_get (metadata doc) ''source'' ''''
      in if src \<noteq> []
         then doc\<lparr>metadata := (metadata doc)(''filename'' \<mapsto> path_name src)\<rparr>
         else doc)"

text \<open>Lines 143-160: the chunks of the corpus.\<close>

definition corpus_chunks :: "('v, 'e) build_env_scheme \<Rightarrow> document list" where
  "corpus_chunks env =
     (let documents = concat (map (load_pdf env) (pdf_files (corpus env)))
      in split_documents env (map set_filename documents))"

text \<open>
  Beside the directory, the state holds whether this process already has a Chroma client
  on the persist directory. chromadb keeps one client for a path for the life of the
  process, and a client whose files \<^verbatim>\<open>shutil.rmtree\<close> deleted under it cannot write to its
  database any more.
\<close>

record 'v store_state =
  persist :: "'v persist_dir option"
  client_open :: bool

text \<open>
  \<^verbatim>\<open>Chroma.from_documents(chunks, embeddings, persist_directory=...)\<close>, lines 167-169. The
  library first takes the client of the directory and its collection, which fails on a
  stale client; it rejects an empty batch; otherwise it has the provider embed the
  chunks and writes one entry for each chunk.
\<close>

definition from_documents ::
  "('v, 'e) build_env_scheme \<Rightarrow> bool \<Rightarrow> document list \<Rightarrow> error + (document \<times> 'v) list"
where
  "from_documents env stale chunks =
     (if stale then Inl (ChromaError ''readonly database'')
      else if chunks = [] then Inl (ChromaError ''empty batch'')
      else (case embed env chunks of
              Inl e \<Rightarrow> Inl e
            | Inr vectors \<Rightarrow> Inr (zip chunks vectors)))"

text \<open>
  \<^verbatim>\<open>_build_vectorstore\<close>: the result or the exception, and the state as the call leaves
  it. After the \<^verbatim>\<open>mkdir\<close> of line 103 the directory exists, so the \<^verbatim>\<open>rmtree\<close> and \<^verbatim>\<open>mkdir\<close>
  of lines 120-122 run whenever \<^verbatim>\<open>force_reindex\<close> holds; when the process has a client
  on the directory, that client is stale from then on. The chunk list is written at
  lines 162-163, before \<^verbatim>\<open>Chroma.from_documents\<close> embeds the chunks and persists the index
  at lines 167-169; an exception raised there leaves the function, with the directory
  as it is at that moment.
\<close>

definition build_vectorstore ::
  "'v build_env \<Rightarrow> 'v store_state
     \<Rightarrow> (error + 'v chroma \<times> document list option) \<times> 'v store_state"
where
  "build_vectorstore env st =
     (let d0 = mkdir (persist st)
      in if \<not> force_reindex env \<and> non_empty d0
         then
           (let vectorstore = Chroma (stored_entries d0);
                chunks = (case chunks_pkl d0 of
                            Some (Pickled cs) \<Rightarrow> Some cs
                          | _ \<Rightarrow> None)
            in (Inr (vectorstore, chunks), \<lparr>persist = Some d0, client_open = True\<rparr>))
         else
           (let d1 = (if force_reindex env then empty_dir else d0);
                stale = (force_reindex env \<and> client_open st)
            in if \<not> dir_exists (corpus env)
               then (Inl (ValueError (''Pasta nao encontrada: '' @ resolved (corpus env))),
                     \<lparr>persist = Some d1, client_open = client_open st\<rparr>)
               else if pdf_files (corpus env) = []
               then (Inl (ValueError (''Nenhum PDF encontrado em '' @ resolved (corpus env))),
                     \<lparr>persist = Some d1, client_open = client_open st\<rparr>)
               else
                 (let chunks = corpus_chunks env;
                      d2 = d1\<lparr>chunks_pkl := Some (Pickled chunks)\<rparr>
                  in case from_documents env stale chunks of
                       Inl e \<Rightarrow> (Inl e, \<lparr>persist = Some d2, client_open = True\<rparr>)
                     | Inr new_entries \<Rightarrow>
                         (let es = stored_entries d2 @ new_entries
                          in (Inr (Chroma es, Some chunks),
                              \<lparr>persist = Some (d2\<lparr>chroma_data := Some es\<rparr>),
                               client_open = True\<rparr>)))))"

section \<open>Example inputs\<close>

text \<open>A chunk with the given text, source path and page.\<close>

definition chunk :: "string \<Rightarrow> string \<Rightarrow> string \<Rightarrow> document" where
  "chunk text src page =
     \<lparr>page_content = text, metadata = [''source'' \<mapsto> src, ''page'' \<mapsto> page]\<rparr>"

text \<open>
  Nine keyword results from one file; the first two are chunks of pages 1 and 2 that
  start with the same text.
\<close>

definition nine_results :: "document list" where
  "nine_results =
     [chunk ''a'' ''x.pdf'' ''1'', chunk ''a'' ''x.pdf'' ''2'', chunk ''b'' ''x.pdf'' ''3'',
      chunk ''c'' ''x.pdf'' ''4'', chunk ''d'' ''x.pdf'' ''5'', chunk ''e'' ''x.pdf'' ''6'',
      chunk ''f'' ''x.pdf'' ''7'', chunk ''g'' ''x.pdf'' ''8'', chunk ''h'' ''x.pdf'' ''9'']"

text \<open>
  A corpus of one PDF whose single page the loader reads, a splitter that keeps the page
  whole, and an embedding provider that is down.
\<close>

definition one_pdf :: pdf_dir where
  "one_pdf = \<lparr>resolved = ''/app/Base'', dir_exists = True, pdf_files = [''/app/Base/x.pdf'']\<rparr>"

definition provider_down :: "nat build_env" where
  "provider_down =
     \<lparr>reindex_var = None,
      corpus = one_pdf,
      pymupdf_load = (\<lambda>path. Inr [chunk ''a'' path ''0'']),
      pypdf_load = (\<lambda>path. Inr []),
      split_documents = (\<lambda>docs. docs),
      embed = (\<lambda>chunks. Inl (ProviderError ''timeout''))\<rparr>"

text \<open>
  An index built before the \<^verbatim>\<open>filename\<close> metadata existed: a search filtered on
  \<^verbatim>\<open>filename\<close> finds nothing, an unfiltered search returns chunks of two contracts.
\<close>

definition old_index :: vectorstore where
  "old_index query k flt =
     (case flt of
        Some f \<Rightarrow> Inr []
      | None \<Rightarrow>
          Inr (slice_to [chunk ''valor: 10'' ''/app/Base/ContratoX.pdf'' ''0'',
                         chunk ''prazo: 30'' ''/app/Base/ContratoY.pdf'' ''3''] k))"

text \<open>A retriever with one result, a language model with one answer, and a BM25
  construction that raises.\<close>

definition fixed_retriever :: search where
  "fixed_retriever query = Inr [chunk ''valor: 10'' ''/app/Base/ContratoX.pdf'' ''0'']"

definition canned_llm :: "string \<Rightarrow> string \<Rightarrow> string \<Rightarrow> error + string" where
  "canned_llm question context hist = Inr ''O valor e 10.''"

definition bm25_unavailable :: "document list \<Rightarrow> int \<Rightarrow> error + search" where
  "bm25_unavailable chunks k = Inl (ValueError ''bm25'')"

text \<open>A forced reindex over a corpus directory that exists and holds no PDF.\<close>

definition no_pdfs :: "nat build_env" where
  "no_pdfs =
     provider_down
       \<lparr>reindex_var := Some ''True'',
        corpus := \<lparr>resolved = ''/app/Base'', dir_exists = True, pdf_files = []\<rparr>\<rparr>"

section \<open>Properties of the hybrid merge\<close>

subsection \<open>The two loops as list recursion\<close>

text \<open>
  Throughout \<^verbatim>\<open>_get_relevant_documents\<close> the set \<^verbatim>\<open>seen\<close> holds exactly the keys of
  \<^verbatim>\<open>result\<close>, so a loop of \<^verbatim>\<open>_add\<close> appends the documents whose key is new.
\<close>

lemma fold_hybrid_add:
  "fold hybrid_add ds (doc_key ` set acc, acc) =
     (doc_key ` set (spec_skip_seen acc ds), spec_skip_seen acc ds)"
proof (induction ds arbitrary: acc)
  case Nil
  show ?case by simp
next
  case (Cons d ds)
  show ?case
  proof (cases "doc_key d \<in> doc_key ` set acc")
    case True
    then show ?thesis using Cons.IH [of acc] by (simp add: hybrid_add_def)
  next
    case False
    have "hybrid_add d (doc_key ` set acc, acc) = (doc_key ` set (acc @ [d]), acc @ [d])"
      using False by (simp add: hybrid_add_def)
    then show ?thesis using False Cons.IH [of "acc @ [d]"] by simp
  qed
qed

lemma spec_skip_seen_distinct:
  "distinct (map doc_key acc) \<Longrightarrow> distinct (map doc_key (spec_skip_seen acc ds))"
  by (induction acc ds rule: spec_skip_seen.induct) auto

lemma spec_skip_seen_length:
  "length (spec_skip_seen acc ds) \<le> length acc + length ds"
  by (induction acc ds rule: spec_skip_seen.induct) auto

lemma spec_skip_seen_extends:
  "\<exists>ys. spec_skip_seen acc ds = acc @ ys"
  by (induction acc ds rule: spec_skip_seen.induct) auto

lemma spec_skip_seen_prefix:
  "take (length acc) (spec_skip_seen acc ds) = acc"
proof -
  obtain ys where "spec_skip_seen acc ds = acc @ ys"
    using spec_skip_seen_extends by blast
  then show ?thesis by simp
qed

lemma spec_skip_seen_fresh:
  "distinct (map doc_key (acc @ ds)) \<Longrightarrow> spec_skip_seen acc ds = acc @ ds"
  by (induction acc ds rule: spec_skip_seen.induct) auto

lemma spec_fill_within:
  "length acc + length ds \<le> K \<Longrightarrow> spec_fill K acc ds = spec_skip_seen acc ds"
  by (induction K acc ds rule: spec_fill.induct) auto

lemma slice_to_take: "\<exists>m. slice_to xs n = take m xs"
  by (auto simp: slice_to_def)

text \<open>The merge for any \<open>k\<close>, and for a budget that is not negative.\<close>

lemma merge_results_general:
  "merge_results k sem kw =
     (let s = spec_skip_seen [] (slice_to sem (k div 2))
      in slice_to (spec_skip_seen s (slice_to kw (k - int (length s)))) k)"
  using fold_hybrid_add [of "slice_to sem (k div 2)" "[]"]
    fold_hybrid_add
      [of "slice_to kw (k - int (length (spec_skip_seen [] (slice_to sem (k div 2)))))"
          "spec_skip_seen [] (slice_to sem (k div 2))"]
  by (simp add: merge_results_def Let_def)

lemma merge_results_eq:
  assumes "0 \<le> k"
  shows "merge_results k sem kw =
    (let s = spec_skip_seen [] (take (nat k div 2) sem)
     in spec_skip_seen s (take (nat k - length s) kw))"
proof -
  define s where "s = spec_skip_seen [] (take (nat k div 2) sem)"
  define r where "r = spec_skip_seen s (take (nat k - length s) kw)"
  have k2: "nat (k div 2) = nat k div 2" using assms by (simp add: nat_div_distrib)
  have st1: "fold hybrid_add (slice_to sem (k div 2)) ({}, []) = (doc_key ` set s, s)"
    using assms fold_hybrid_add [of "take (nat k div 2) sem" "[]"]
    by (simp add: slice_to_def s_def k2)
  have ls: "length s \<le> nat k div 2"
    using spec_skip_seen_length [of "[]" "take (nat k div 2) sem"] by (simp add: s_def)
  then have win: "k - int (length s) = int (nat k - length s)" using assms by linarith
  have st2: "fold hybrid_add (slice_to kw (k - int (length s))) (doc_key ` set s, s)
      = (doc_key ` set r, r)"
    unfolding win using fold_hybrid_add [of "take (nat k - length s) kw" s]
    by (simp add: slice_to_def r_def)
  have "length r \<le> nat k"
    using spec_skip_seen_length [of s "take (nat k - length s) kw"] ls
    unfolding r_def by (simp only: length_take) arith
  then have "slice_to r k = r" using assms by (simp add: slice_to_def)
  then show ?thesis using st1 st2 by (simp add: merge_results_def Let_def s_def r_def)
qed

text \<open>
  The retriever returns exactly when both branches return, and then with the merge of
  their results; otherwise it raises the exception of the first failing branch.
\<close>

lemma get_relevant_documents_returns:
  "get_relevant_documents semantic bm25 k query = Inr out \<longleftrightarrow>
     (\<exists>sem kw. semantic query = Inr sem \<and> bm25 query = Inr kw \<and> out = merge_results k sem kw)"
  by (auto simp: get_relevant_documents_def split: sum.splits)

subsection \<open>The example chunks\<close>

lemma doc_key_chunk: "doc_key (chunk text src page) = (take 100 text, src)"
  by (simp add: doc_key_def chunk_def dict_get_def)

lemma chunk_eq: "chunk t s p = chunk t' s' p' \<longleftrightarrow> t = t' \<and> s = s' \<and> p = p'"
proof
  assume h: "chunk t s p = chunk t' s' p'"
  then have "page_content (chunk t s p) = page_content (chunk t' s' p')"
    and m: "metadata (chunk t s p) = metadata (chunk t' s' p')" by simp_all
  then have "t = t'" by (simp add: chunk_def)
  moreover have "metadata (chunk t s p) ''source'' = metadata (chunk t' s' p') ''source''"
    using m by simp
  then have "s = s'" by (simp add: chunk_def)
  moreover have "metadata (chunk t s p) ''page'' = metadata (chunk t' s' p') ''page''"
    using m by simp
  then have "p = p'" by (simp add: chunk_def)
  ultimately show "t = t' \<and> s = s' \<and> p = p'" by simp
qed simp

section \<open>Claims about the hybrid retriever\<close>

text \<open>
  For a budget \<open>k \<ge> 0\<close> the code looks at the first \<open>k - n\<close> keyword results only,
  \<open>n\<close> being the number of chunks the semantic step added: its output is what the
  spec's procedure gives on that window of the keyword list.
\<close>

lemma merge_results_window:
  assumes "0 \<le> k"
  shows "merge_results k sem kw =
           spec_hybrid (nat k) sem
             (take (nat k - length (spec_skip_seen [] (take (nat k div 2) sem))) kw)"
proof -
  define s where "s = spec_skip_seen [] (take (nat k div 2) sem)"
  have ls: "length s \<le> nat k div 2"
    using spec_skip_seen_length [of "[]" "take (nat k div 2) sem"] by (simp add: s_def)
  have m: "merge_results k sem kw = spec_skip_seen s (take (nat k - length s) kw)"
    using merge_results_eq [OF assms, of sem kw] by (simp add: Let_def s_def)
  have "length s + length (take (nat k - length s) kw) \<le> nat k"
    using ls unfolding length_take by arith
  then have w: "spec_fill (nat k) s (take (nat k - length s) kw)
      = spec_skip_seen s (take (nat k - length s) kw)"
    by (rule spec_fill_within)
  show ?thesis using m w by (simp add: spec_hybrid_def s_def)
qed

text \<open>
  C1. For every pair of result lists the two branches return, the keyword list having at
  most \<open>k/2\<close> entries as the results of the BM25 retriever built at line 210 with
  \<^verbatim>\<open>k=RETRIEVER_K // 2\<close> have, the merged output is what the spec describes: up to \<open>k/2\<close>
  semantic results in their returned order, then keyword results in their returned order
  until the combined count reaches \<open>k\<close>, a chunk being skipped when its deduplication
  identity was already added (\<open>k = 8\<close> in the program).
\<close>

theorem hybrid_merge_as_specified:
  assumes "0 \<le> k" and "int (length kw) \<le> k div 2"
  shows "merge_results k sem kw = spec_hybrid (nat k) sem kw"
proof -
  define s where "s = spec_skip_seen [] (take (nat k div 2) sem)"
  have "length s \<le> nat k div 2"
    using spec_skip_seen_length [of "[]" "take (nat k div 2) sem"] by (simp add: s_def)
  moreover have "length kw \<le> nat k div 2" using assms by linarith
  ultimately have "length kw \<le> nat k - length s" by arith
  then have "take (nat k - length s) kw = kw" by simp
  then show ?thesis using merge_results_window [OF assms(1), of sem kw] by (simp add: s_def)
qed

theorem hybrid_merge_as_specified_witness:
  "(0::int) \<le> 8 \<and> int (length [chunk ''a'' ''x.pdf'' ''2'', chunk ''z'' ''x.pdf'' ''7'']) \<le> 8 div 2
   \<and> merge_results 8 [chunk ''a'' ''x.pdf'' ''1'', chunk ''b'' ''x.pdf'' ''3'']
        [chunk ''a'' ''x.pdf'' ''2'', chunk ''z'' ''x.pdf'' ''7'']
       = spec_hybrid (nat 8) [chunk ''a'' ''x.pdf'' ''1'', chunk ''b'' ''x.pdf'' ''3'']
           [chunk ''a'' ''x.pdf'' ''2'', chunk ''z'' ''x.pdf'' ''7'']
   \<and> spec_hybrid (nat 8) [chunk ''a'' ''x.pdf'' ''1'', chunk ''b'' ''x.pdf'' ''3'']
        [chunk ''a'' ''x.pdf'' ''2'', chunk ''z'' ''x.pdf'' ''7'']
       = [chunk ''a'' ''x.pdf'' ''1'', chunk ''b'' ''x.pdf'' ''3'', chunk ''z'' ''x.pdf'' ''7'']"
proof -
  have h: "(0::int) \<le> 8" by simp
  have l: "int (length [chunk ''a'' ''x.pdf'' ''2'', chunk ''z'' ''x.pdf'' ''7'']) \<le> 8 div 2"
    by simp
  have e: "merge_results 8 [chunk ''a'' ''x.pdf'' ''1'', chunk ''b'' ''x.pdf'' ''3'']
        [chunk ''a'' ''x.pdf'' ''2'', chunk ''z'' ''x.pdf'' ''7'']
       = spec_hybrid (nat 8) [chunk ''a'' ''x.pdf'' ''1'', chunk ''b'' ''x.pdf'' ''3'']
           [chunk ''a'' ''x.pdf'' ''2'', chunk ''z'' ''x.pdf'' ''7'']"
    using hybrid_merge_as_specified [OF h l] .
  have v: "spec_hybrid (nat 8) [chunk ''a'' ''x.pdf'' ''1'', chunk ''b'' ''x.pdf'' ''3'']
        [chunk ''a'' ''x.pdf'' ''2'', chunk ''z'' ''x.pdf'' ''7'']
       = [chunk ''a'' ''x.pdf'' ''1'', chunk ''b'' ''x.pdf'' ''3'', chunk ''z'' ''x.pdf'' ''7'']"
    by (simp add: spec_hybrid_def doc_key_chunk)
  show ?thesis by (intro conjI h l e v)
qed

text \<open>
  The bound on the keyword list is what the BM25 retriever of line 210 guarantees; a
  keyword branch with a larger budget would leave the window. With no semantic result
  and nine keyword results whose first two share their identity, the code slices the
  first eight, drops the duplicate and returns seven chunks, where filling up to
  \<open>K = 8\<close> would take the ninth.
\<close>

lemma merge_results_beyond_window:
  "length (merge_results RETRIEVER_K [] nine_results) = 7
   \<and> length (spec_hybrid (nat RETRIEVER_K) [] nine_results) = 8"
proof -
  have a: "length (merge_results RETRIEVER_K [] nine_results) = 7"
    by (simp add: RETRIEVER_K_def merge_results_def slice_to_def hybrid_add_def doc_key_chunk
        nine_results_def)
  have b: "length (spec_hybrid (nat RETRIEVER_K) [] nine_results) = 8"
    by (simp add: RETRIEVER_K_def spec_hybrid_def doc_key_chunk nine_results_def)
  show ?thesis by (intro conjI a b)
qed

text \<open>
  C2. No two chunks in the hybrid retriever's output share the same deduplication
  identity (first 100 characters of the text, source path): of two different chunks with
  the same identity at most one is in the output, whatever the branches returned.
\<close>

theorem hybrid_no_duplicate_identity:
  "distinct (map doc_key (merge_results k sem kw))
   \<and> (\<forall>d1 d2. d1 \<in> set (merge_results k sem kw) \<and> d2 \<in> set (merge_results k sem kw)
                \<and> doc_key d1 = doc_key d2 \<longrightarrow> d1 = d2)"
proof -
  define s where "s = spec_skip_seen [] (slice_to sem (k div 2))"
  define r where "r = spec_skip_seen s (slice_to kw (k - int (length s)))"
  have "distinct (map doc_key s)" unfolding s_def by (rule spec_skip_seen_distinct) simp
  then have d: "distinct (map doc_key r)" unfolding r_def by (rule spec_skip_seen_distinct)
  obtain m where "slice_to r k = take m r" using slice_to_take by blast
  then have "map doc_key (merge_results k sem kw) = take m (map doc_key r)"
    by (simp add: merge_results_general s_def r_def Let_def take_map)
  then have dist: "distinct (map doc_key (merge_results k sem kw))"
    using d by (simp add: distinct_take)
  then have "inj_on doc_key (set (merge_results k sem kw))"
    by (simp add: distinct_map)
  then show ?thesis using dist by (auto dest: inj_onD)
qed

theorem hybrid_no_duplicate_identity_witness:
  "doc_key (chunk ''a'' ''x.pdf'' ''1'') = doc_key (chunk ''a'' ''x.pdf'' ''2'')
   \<and> chunk ''a'' ''x.pdf'' ''1''
       \<in> set (merge_results 8 [chunk ''a'' ''x.pdf'' ''1''] [chunk ''a'' ''x.pdf'' ''2''])
   \<and> chunk ''a'' ''x.pdf'' ''2''
       \<notin> set (merge_results 8 [chunk ''a'' ''x.pdf'' ''1''] [chunk ''a'' ''x.pdf'' ''2''])"
proof -
  define out where
    "out = merge_results 8 [chunk ''a'' ''x.pdf'' ''1''] [chunk ''a'' ''x.pdf'' ''2'']"
  have k: "doc_key (chunk ''a'' ''x.pdf'' ''1'') = doc_key (chunk ''a'' ''x.pdf'' ''2'')"
    by (simp add: doc_key_chunk)
  have i: "chunk ''a'' ''x.pdf'' ''1'' \<in> set out"
    unfolding out_def
    by (simp add: merge_results_def slice_to_def hybrid_add_def doc_key_chunk)
  have n: "chunk ''a'' ''x.pdf'' ''1'' \<noteq> chunk ''a'' ''x.pdf'' ''2''"
    by (simp add: chunk_eq)
  have "\<forall>d1 d2. d1 \<in> set out \<and> d2 \<in> set out \<and> doc_key d1 = doc_key d2 \<longrightarrow> d1 = d2"
    unfolding out_def
    using hybrid_no_duplicate_identity
      [of 8 "[chunk ''a'' ''x.pdf'' ''1'']" "[chunk ''a'' ''x.pdf'' ''2'']"]
    by (rule conjunct2)
  then have o: "chunk ''a'' ''x.pdf'' ''2'' \<notin> set out"
    using k i n by blast
  show ?thesis using k i o unfolding out_def by (intro conjI)
qed

text \<open>
  C3. For any results of the two branches, the length of the hybrid retriever's output
  is at most the budget \<open>k\<close> (the configured \<^verbatim>\<open>RETRIEVER_K = 8\<close>, and any other budget that
  is not negative).
\<close>

theorem hybrid_budget:
  assumes "0 \<le> k"
  shows "int (length (merge_results k sem kw)) \<le> k"
proof -
  define s where "s = spec_skip_seen [] (slice_to sem (k div 2))"
  define r where "r = spec_skip_seen s (slice_to kw (k - int (length s)))"
  have "merge_results k sem kw = take (nat k) r"
    using assms by (simp add: merge_results_general s_def r_def Let_def slice_to_def)
  then show ?thesis using assms by simp
qed

theorem hybrid_budget_witness:
  "(0::int) \<le> RETRIEVER_K
   \<and> int (length (merge_results RETRIEVER_K [] nine_results)) \<le> RETRIEVER_K
   \<and> length nine_results = 9"
proof -
  have h: "0 \<le> RETRIEVER_K" by (simp add: RETRIEVER_K_def)
  have l: "length nine_results = 9" by (simp add: nine_results_def)
  show ?thesis using h hybrid_budget [OF h, of "[]" nine_results] l
    by (intro conjI)
qed

text \<open>
  The semantic results come first whenever the first \<open>k/2\<close> of them have pairwise
  different identities, whatever the keyword branch returned.
\<close>

lemma merge_results_semantic_prefix:
  assumes "0 \<le> k" and "distinct (map doc_key (take (nat (k div 2)) sem))"
  shows "take (min (nat (k div 2)) (length sem)) (merge_results k sem kw)
           = take (nat (k div 2)) sem"
proof -
  define s where "s = spec_skip_seen [] (take (nat k div 2) sem)"
  have k2: "nat (k div 2) = nat k div 2" using assms(1) by (simp add: nat_div_distrib)
  have s: "s = take (nat (k div 2)) sem"
    using spec_skip_seen_fresh [of "[]" "take (nat (k div 2)) sem"] assms(2)
    by (simp add: s_def k2)
  then have l: "length s = min (nat (k div 2)) (length sem)" by (simp add: min.commute)
  have "merge_results k sem kw = spec_skip_seen s (take (nat k - length s) kw)"
    using merge_results_eq [OF assms(1), of sem kw] by (simp add: Let_def s_def)
  then have "take (length s) (merge_results k sem kw) = s"
    by (simp add: spec_skip_seen_prefix)
  then show ?thesis using s l by simp
qed

text \<open>
  C4 (as amended). When the two branches return results with no shared deduplication
  identity and the first \<open>k/2\<close> semantic results have pairwise different identities, the
  first \<open>min(k/2, len(semantic))\<close> entries of the merged output are the first
  \<open>min(k/2, len(semantic))\<close> semantic results, in order.
\<close>

theorem semantic_first:
  assumes "0 \<le> k"
    and "doc_key ` set sem \<inter> doc_key ` set kw = {}"
    and "distinct (map doc_key (take (nat (k div 2)) sem))"
  shows "take (min (nat (k div 2)) (length sem)) (merge_results k sem kw)
           = take (min (nat (k div 2)) (length sem)) sem"
proof -
  have "take (min (nat (k div 2)) (length sem)) sem = take (nat (k div 2)) sem"
    by (cases "nat (k div 2) \<le> length sem") (simp_all add: min_def)
  then show ?thesis
    using merge_results_semantic_prefix [OF assms(1) assms(3), of kw] by simp
qed

theorem semantic_first_witness:
  "(0::int) \<le> 8
   \<and> doc_key ` set [chunk ''a'' ''x.pdf'' ''1'', chunk ''b'' ''x.pdf'' ''1'']
       \<inter> doc_key ` set [chunk ''c'' ''x.pdf'' ''2''] = {}
   \<and> distinct (map doc_key
        (take (nat (8 div 2)) [chunk ''a'' ''x.pdf'' ''1'', chunk ''b'' ''x.pdf'' ''1'']))
   \<and> take (min (nat (8 div 2)) (length [chunk ''a'' ''x.pdf'' ''1'', chunk ''b'' ''x.pdf'' ''1'']))
        (merge_results 8 [chunk ''a'' ''x.pdf'' ''1'', chunk ''b'' ''x.pdf'' ''1'']
           [chunk ''c'' ''x.pdf'' ''2''])
       = [chunk ''a'' ''x.pdf'' ''1'', chunk ''b'' ''x.pdf'' ''1'']"
proof -
  have h: "(0::int) \<le> 8" by simp
  have o: "doc_key ` set [chunk ''a'' ''x.pdf'' ''1'', chunk ''b'' ''x.pdf'' ''1'']
       \<inter> doc_key ` set [chunk ''c'' ''x.pdf'' ''2''] = {}"
    by (simp add: doc_key_chunk)
  have d: "distinct (map doc_key
        (take (nat (8 div 2)) [chunk ''a'' ''x.pdf'' ''1'', chunk ''b'' ''x.pdf'' ''1'']))"
    by (simp add: doc_key_chunk)
  have "take (min (nat (8 div 2)) (length [chunk ''a'' ''x.pdf'' ''1'', chunk ''b'' ''x.pdf'' ''1'']))
        (merge_results 8 [chunk ''a'' ''x.pdf'' ''1'', chunk ''b'' ''x.pdf'' ''1'']
           [chunk ''c'' ''x.pdf'' ''2''])
       = take (min (nat (8 div 2)) (length [chunk ''a'' ''x.pdf'' ''1'', chunk ''b'' ''x.pdf'' ''1'']))
           [chunk ''a'' ''x.pdf'' ''1'', chunk ''b'' ''x.pdf'' ''1'']"
    using semantic_first [OF h o d] .
  then have e: "take (min (nat (8 div 2)) (length [chunk ''a'' ''x.pdf'' ''1'', chunk ''b'' ''x.pdf'' ''1'']))
        (merge_results 8 [chunk ''a'' ''x.pdf'' ''1'', chunk ''b'' ''x.pdf'' ''1'']
           [chunk ''c'' ''x.pdf'' ''2''])
       = [chunk ''a'' ''x.pdf'' ''1'', chunk ''b'' ''x.pdf'' ''1'']"
    by simp
  show ?thesis by (intro conjI h o d e)
qed

text \<open>
  C4 as stated fails when the semantic branch itself returns two chunks of one identity
  (pages 1 and 2 of a file that start with the same text): the branches share no
  identity, the second semantic chunk is dropped, and the second entry of the output is
  the keyword result.
\<close>

theorem semantic_first_counterexample:
  "doc_key ` set [chunk ''a'' ''x.pdf'' ''1'', chunk ''a'' ''x.pdf'' ''2'']
       \<inter> doc_key ` set [chunk ''b'' ''x.pdf'' ''3''] = {}
   \<and> take (min (nat (RETRIEVER_K div 2))
              (length [chunk ''a'' ''x.pdf'' ''1'', chunk ''a'' ''x.pdf'' ''2'']))
        (merge_results RETRIEVER_K [chunk ''a'' ''x.pdf'' ''1'', chunk ''a'' ''x.pdf'' ''2'']
           [chunk ''b'' ''x.pdf'' ''3''])
       \<noteq> take (min (nat (RETRIEVER_K div 2))
              (length [chunk ''a'' ''x.pdf'' ''1'', chunk ''a'' ''x.pdf'' ''2'']))
            [chunk ''a'' ''x.pdf'' ''1'', chunk ''a'' ''x.pdf'' ''2'']"
proof -
  have o: "doc_key ` set [chunk ''a'' ''x.pdf'' ''1'', chunk ''a'' ''x.pdf'' ''2'']
       \<inter> doc_key ` set [chunk ''b'' ''x.pdf'' ''3''] = {}"
    by (simp add: doc_key_chunk)
  have m: "merge_results RETRIEVER_K [chunk ''a'' ''x.pdf'' ''1'', chunk ''a'' ''x.pdf'' ''2'']
           [chunk ''b'' ''x.pdf'' ''3'']
         = [chunk ''a'' ''x.pdf'' ''1'', chunk ''b'' ''x.pdf'' ''3'']"
    by (simp add: RETRIEVER_K_def merge_results_def slice_to_def hybrid_add_def doc_key_chunk)
  have n: "take (min (nat (RETRIEVER_K div 2))
              (length [chunk ''a'' ''x.pdf'' ''1'', chunk ''a'' ''x.pdf'' ''2'']))
        (merge_results RETRIEVER_K [chunk ''a'' ''x.pdf'' ''1'', chunk ''a'' ''x.pdf'' ''2'']
           [chunk ''b'' ''x.pdf'' ''3''])
       \<noteq> take (min (nat (RETRIEVER_K div 2))
              (length [chunk ''a'' ''x.pdf'' ''1'', chunk ''a'' ''x.pdf'' ''2'']))
            [chunk ''a'' ''x.pdf'' ''1'', chunk ''a'' ''x.pdf'' ''2'']"
    unfolding m by (simp add: RETRIEVER_K_def chunk_eq)
  show ?thesis by (intro conjI o n)
qed

section \<open>Claims about the choice of retriever\<close>

text \<open>
  The constructor of the hybrid retriever raises and the handler of line 212 swallows
  the exception, so every call of \<^verbatim>\<open>_create_retriever\<close> returns the semantic retriever,
  also when the BM25 retriever was built.
\<close>

lemma create_retriever_semantic:
  "create_retriever bm25_from_documents vs chunks use_hybrid = as_retriever vs RETRIEVER_K"
  by (simp add: create_retriever_def hybrid_retriever_init_def Let_def
      split: option.splits sum.splits)

text \<open>
  C5. When the keyword index is unavailable (the chunk list is absent or empty, or the
  construction of the BM25 retriever raises), \<^verbatim>\<open>_create_retriever\<close> returns the plain
  semantic retriever with budget \<^verbatim>\<open>RETRIEVER_K\<close>: a query to the retriever is the
  unfiltered similarity search for \<^verbatim>\<open>RETRIEVER_K\<close> results.
\<close>

theorem create_retriever_degrades:
  assumes "chunks = None \<or> chunks = Some []
           \<or> (\<exists>cs e. chunks = Some cs \<and> bm25_from_documents cs (RETRIEVER_K div 2) = Inl e)"
  shows "create_retriever bm25_from_documents vs chunks use_hybrid = as_retriever vs RETRIEVER_K
         \<and> create_retriever bm25_from_documents vs chunks use_hybrid query
             = vs query RETRIEVER_K None"
proof -
  have "create_retriever bm25_from_documents vs chunks use_hybrid = as_retriever vs RETRIEVER_K"
    using assms by (auto simp: create_retriever_def Let_def)
  then show ?thesis by (simp add: as_retriever_def)
qed

theorem create_retriever_degrades_witness:
  "bm25_unavailable [chunk ''valor: 10'' ''/app/Base/ContratoX.pdf'' ''0''] (RETRIEVER_K div 2)
     = Inl (ValueError ''bm25'')
   \<and> create_retriever bm25_unavailable old_index
        (Some [chunk ''valor: 10'' ''/app/Base/ContratoX.pdf'' ''0'']) True ''prazo''
       = old_index ''prazo'' RETRIEVER_K None
   \<and> create_retriever bm25_unavailable old_index None True ''prazo''
       = old_index ''prazo'' RETRIEVER_K None"
proof -
  have b: "bm25_unavailable [chunk ''valor: 10'' ''/app/Base/ContratoX.pdf'' ''0'']
      (RETRIEVER_K div 2) = Inl (ValueError ''bm25'')"
    by (simp add: bm25_unavailable_def)
  then have h: "Some [chunk ''valor: 10'' ''/app/Base/ContratoX.pdf'' ''0''] = None
      \<or> Some [chunk ''valor: 10'' ''/app/Base/ContratoX.pdf'' ''0''] = Some []
      \<or> (\<exists>cs e. Some [chunk ''valor: 10'' ''/app/Base/ContratoX.pdf'' ''0''] = Some cs
            \<and> bm25_unavailable cs (RETRIEVER_K div 2) = Inl e)"
    by blast
  have n: "None = None \<or> None = Some []
      \<or> (\<exists>cs e. None = Some cs \<and> bm25_unavailable cs (RETRIEVER_K div 2) = Inl e)"
    by simp
  have c1: "create_retriever bm25_unavailable old_index
        (Some [chunk ''valor: 10'' ''/app/Base/ContratoX.pdf'' ''0'']) True ''prazo''
       = old_index ''prazo'' RETRIEVER_K None"
    using create_retriever_degrades
      [where chunks = "Some [chunk ''valor: 10'' ''/app/Base/ContratoX.pdf'' ''0'']"
         and bm25_from_documents = bm25_unavailable, OF h]
    by (rule conjunct2)
  have c2: "create_retriever bm25_unavailable old_index None True ''prazo''
       = old_index ''prazo'' RETRIEVER_K None"
    using create_retriever_degrades
      [where chunks = None and bm25_from_documents = bm25_unavailable, OF n]
    by (rule conjunct2)
  show ?thesis by (intro conjI b c1 c2)
qed

section \<open>Claims about \<^verbatim>\<open>answer_question\<close>\<close>

subsection \<open>Strings and lists\<close>

text \<open>\<open>str_in\<close> is the substring relation.\<close>

lemma str_in_iff: "str_in sub s \<longleftrightarrow> (\<exists>p q. s = p @ sub @ q)"
proof (induction s)
  case Nil
  show ?case by auto
next
  case (Cons c cs)
  have pre: "take (length sub) (c # cs) = sub \<longleftrightarrow> (\<exists>q. c # cs = sub @ q)"
  proof
    assume "take (length sub) (c # cs) = sub"
    then have "c # cs = sub @ drop (length sub) (c # cs)"
      by (metis append_take_drop_id)
    then show "\<exists>q. c # cs = sub @ q" ..
  next
    assume "\<exists>q. c # cs = sub @ q"
    then show "take (length sub) (c # cs) = sub" by auto
  qed
  show ?case
  proof
    assume "str_in sub (c # cs)"
    then consider "\<exists>q. c # cs = sub @ q" | "str_in sub cs" using pre by auto
    then show "\<exists>p q. c # cs = p @ sub @ q"
    proof cases
      case 1
      then obtain q where "c # cs = [] @ sub @ q" by auto
      then show ?thesis by blast
    next
      case 2
      then obtain p q where "cs = p @ sub @ q" using Cons.IH by blast
      then have "c # cs = (c # p) @ sub @ q" by simp
      then show ?thesis by blast
    qed
  next
    assume "\<exists>p q. c # cs = p @ sub @ q"
    then obtain p q where e: "c # cs = p @ sub @ q" by blast
    show "str_in sub (c # cs)"
    proof (cases p)
      case Nil
      then have "\<exists>q. c # cs = sub @ q" using e by auto
      then have "take (length sub) (c # cs) = sub" using pre by blast
      then show ?thesis by simp
    next
      case (Cons a p')
      then have "cs = p' @ sub @ q" using e by simp
      then show ?thesis using Cons.IH by auto
    qed
  qed
qed

lemma str_in_suffix: "str_in sub (pre @ sub)"
  by (simp add: str_in_iff) (metis append_Nil2)

lemma source_matches_iff:
  "source_matches f d \<longleftrightarrow>
     (\<exists>p q. dict_get (metadata d) ''source'' '''' = p @ f @ q)
     \<or> dict_get (metadata d) ''filename'' '''' = f"
  by (simp add: source_matches_def str_in_iff)

lemma source_matches_fun:
  "(\<lambda>d. (\<exists>p q. dict_get (metadata d) ''source'' '''' = p @ f @ q)
         \<or> dict_get (metadata d) ''filename'' '''' = f) = source_matches f"
  by (rule ext) (simp add: source_matches_iff)

lemma map_enumerate_nth:
  "map (\<lambda>(i, p). g i p) (enumerate 0 xs) = map (\<lambda>i. g i (xs ! i)) [0..<length xs]"
  by (rule nth_equalityI) (simp_all add: nth_enumerate_eq)

lemma not_corpus_question: "\<not> is_question_about_pdfs_in_base ''Qual o valor do contrato?''"
  by (simp add: is_question_about_pdfs_in_base_def strip_def lower_def lower_char_def
      is_space_def TERMOS_BASE_def TERMOS_ARQUIVO_def)

subsection \<open>The source filter\<close>

text \<open>
  C6. For a question that is not about the corpus, asked with a source filter \<open>f\<close> (not
  empty) and a vector store: when the search filtered on \<^verbatim>\<open>filename = f\<close> returns no
  result or raises, \<^verbatim>\<open>answer_question\<close> runs the unfiltered search for \<open>2K = 16\<close>
  candidates, keeps exactly the chunks whose source path contains \<open>f\<close> or whose filename
  is \<open>f\<close>, and cuts the list to \<open>K = 8\<close>. When nothing is left the result is the "nothing
  found" message with no source, not an exception, and the language model is not called;
  otherwise the kept chunks are the sources of the answer.
\<close>

theorem filtered_search_falls_back:
  assumes "\<not> is_question_about_pdfs_in_base question"
    and "f \<noteq> []"
    and "vs question RETRIEVER_K (Some f) = Inr []
         \<or> (\<exists>e. vs question RETRIEVER_K (Some f) = Inl e)"
    and "vs question (RETRIEVER_K * 2) None = Inr all_docs"
    and "docs = take 8 (filter (\<lambda>d. (\<exists>p q. dict_get (metadata d) ''source'' '''' = p @ f @ q)
                                      \<or> dict_get (metadata d) ''filename'' '''' = f) all_docs)"
    and "calls = [SimilaritySearch question 8 (Some f), SimilaritySearch question 16 None]"
  shows "retrieve_docs question retriever (Some f) (Some vs) = (Inr docs, calls)
         \<and> (docs = [] \<longrightarrow>
              answer_question question retriever llm pd history (Some f) (Some vs)
                = (Inr (NOTHING_FOUND, []), calls))
         \<and> (docs \<noteq> [] \<and> llm question (build_context docs) (build_hist_text history) = Inr content
              \<longrightarrow> fst (answer_question question retriever llm pd history (Some f) (Some vs))
                    = Inr (content, docs))"
proof -
  have first: "(case vs question RETRIEVER_K (Some f) of Inl e \<Rightarrow> [] | Inr ds \<Rightarrow> ds) = []"
    using assms(3) by auto
  have flt: "slice_to (filter (source_matches f) all_docs) RETRIEVER_K = docs"
    unfolding assms(5) source_matches_fun by (simp add: slice_to_def RETRIEVER_K_def)
  have r: "retrieve_docs question retriever (Some f) (Some vs) = (Inr docs, calls)"
    using assms(2) assms(4) first flt
    by (simp add: retrieve_docs_def Let_def assms(6) RETRIEVER_K_def)
  have a: "answer_question question retriever llm pd history (Some f) (Some vs)
             = (Inr (NOTHING_FOUND, []), calls)" if "docs = []"
    using assms(1) r that by (simp add: answer_question_def)
  have b: "fst (answer_question question retriever llm pd history (Some f) (Some vs))
             = Inr (content, docs)"
    if "docs \<noteq> []" "llm question (build_context docs) (build_hist_text history) = Inr content"
    using assms(1) r that by (simp add: answer_question_def Let_def)
  show ?thesis using r a b by blast
qed

theorem filtered_search_falls_back_witness:
  "\<not> is_question_about_pdfs_in_base ''Qual o valor do contrato?''
   \<and> ''Inexistente.pdf'' \<noteq> []
   \<and> old_index ''Qual o valor do contrato?'' RETRIEVER_K (Some ''Inexistente.pdf'') = Inr []
   \<and> old_index ''Qual o valor do contrato?'' (RETRIEVER_K * 2) None
       = Inr [chunk ''valor: 10'' ''/app/Base/ContratoX.pdf'' ''0'',
              chunk ''prazo: 30'' ''/app/Base/ContratoY.pdf'' ''3'']
   \<and> answer_question ''Qual o valor do contrato?'' fixed_retriever canned_llm one_pdf None
        (Some ''Inexistente.pdf'') (Some old_index)
       = (Inr (NOTHING_FOUND, []),
          [SimilaritySearch ''Qual o valor do contrato?'' 8 (Some ''Inexistente.pdf''),
           SimilaritySearch ''Qual o valor do contrato?'' 16 None])"
proof -
  define all_docs where "all_docs = [chunk ''valor: 10'' ''/app/Base/ContratoX.pdf'' ''0'',
              chunk ''prazo: 30'' ''/app/Base/ContratoY.pdf'' ''3'']"
  have q: "\<not> is_question_about_pdfs_in_base ''Qual o valor do contrato?''"
    by (rule not_corpus_question)
  have f: "''Inexistente.pdf'' \<noteq> []" by simp
  have s1: "old_index ''Qual o valor do contrato?'' RETRIEVER_K (Some ''Inexistente.pdf'') = Inr []"
    by (simp add: old_index_def)
  then have s1': "old_index ''Qual o valor do contrato?'' RETRIEVER_K (Some ''Inexistente.pdf'') = Inr []
      \<or> (\<exists>e. old_index ''Qual o valor do contrato?'' RETRIEVER_K (Some ''Inexistente.pdf'') = Inl e)"
    by (rule disjI1)
  have s2: "old_index ''Qual o valor do contrato?'' (RETRIEVER_K * 2) None = Inr all_docs"
    by (simp add: old_index_def RETRIEVER_K_def slice_to_def all_docs_def)
  have "filter (source_matches ''Inexistente.pdf'') all_docs = []"
    by (simp add: all_docs_def source_matches_def chunk_def dict_get_def)
  then have d: "[] = take 8 (filter (\<lambda>d. (\<exists>p q. dict_get (metadata d) ''source'' '''' = p @ ''Inexistente.pdf'' @ q)
                                      \<or> dict_get (metadata d) ''filename'' '''' = ''Inexistente.pdf'') all_docs)"
    unfolding source_matches_fun by simp
  have a: "answer_question ''Qual o valor do contrato?'' fixed_retriever canned_llm one_pdf None
        (Some ''Inexistente.pdf'') (Some old_index)
       = (Inr (NOTHING_FOUND, []),
          [SimilaritySearch ''Qual o valor do contrato?'' 8 (Some ''Inexistente.pdf''),
           SimilaritySearch ''Qual o valor do contrato?'' 16 None])"
    using filtered_search_falls_back
      [where vs = old_index and question = "''Qual o valor do contrato?''"
         and f = "''Inexistente.pdf''" and all_docs = all_docs and docs = "[]"
         and retriever = fixed_retriever and llm = canned_llm and pd = one_pdf
         and history = None,
       OF q f s1' s2 d refl]
    by blast
  show ?thesis using q f s1 s2 [unfolded all_docs_def] a by (intro conjI)
qed

text \<open>
  C10. With a source filter and no vector store (\<^verbatim>\<open>vectorstore=None\<close>) the filter is
  ignored: the retrieval step is one call of the retriever, whose results are taken as
  they are, and the whole answer is the one given without a filter.
\<close>

theorem filter_without_vectorstore_ignored:
  "retrieve_docs question retriever (Some f) None
     = (retriever question, [RetrieverInvoke question])
   \<and> answer_question question retriever llm pd history (Some f) None
       = answer_question question retriever llm pd history None None"
  by (simp add: answer_question_def retrieve_docs_def)

theorem filter_without_vectorstore_ignored_witness:
  "\<not> source_matches ''ContratoY.pdf'' (chunk ''valor: 10'' ''/app/Base/ContratoX.pdf'' ''0'')
   \<and> fst (answer_question ''Qual o valor do contrato?'' fixed_retriever canned_llm one_pdf None
        (Some ''ContratoY.pdf'') None)
       = Inr (''O valor e 10.'', [chunk ''valor: 10'' ''/app/Base/ContratoX.pdf'' ''0''])"
proof -
  have m: "\<not> source_matches ''ContratoY.pdf'' (chunk ''valor: 10'' ''/app/Base/ContratoX.pdf'' ''0'')"
    by (simp add: source_matches_def chunk_def dict_get_def)
  have u: "fst (answer_question ''Qual o valor do contrato?'' fixed_retriever canned_llm one_pdf
        None None None)
       = Inr (''O valor e 10.'', [chunk ''valor: 10'' ''/app/Base/ContratoX.pdf'' ''0''])"
    by (simp add: answer_question_def not_corpus_question retrieve_docs_def fixed_retriever_def
        canned_llm_def Let_def)
  have "answer_question ''Qual o valor do contrato?'' fixed_retriever canned_llm one_pdf None
        (Some ''ContratoY.pdf'') None
      = answer_question ''Qual o valor do contrato?'' fixed_retriever canned_llm one_pdf None
        None None"
    using filter_without_vectorstore_ignored by (rule conjunct2)
  then have a: "fst (answer_question ''Qual o valor do contrato?'' fixed_retriever canned_llm
        one_pdf None (Some ''ContratoY.pdf'') None)
       = Inr (''O valor e 10.'', [chunk ''valor: 10'' ''/app/Base/ContratoX.pdf'' ''0''])"
    using u by simp
  show ?thesis by (intro conjI m a)
qed

subsection \<open>Questions about the corpus\<close>

text \<open>
  C9. The question \<^verbatim>\<open>quais pdfs estao na base\<close> is classified as a question about the
  corpus, and for every question so classified \<^verbatim>\<open>answer_question\<close> returns the text of
  \<^verbatim>\<open>_list_pdfs_in_base\<close> with an empty source list and calls neither the retriever, nor
  the vector store, nor the language model. For a corpus directory that exists and holds
  PDFs the text is the header followed by one numbered line for each file name.
\<close>

theorem corpus_question_lists_pdfs:
  "is_question_about_pdfs_in_base ''quais pdfs estao na base''
   \<and> (is_question_about_pdfs_in_base question \<longrightarrow>
        answer_question question retriever llm pd history filter_source vectorstore
          = (Inr (fst (list_pdfs_in_base pd), []), [])
        \<and> (dir_exists pd \<and> pdf_files pd \<noteq> [] \<longrightarrow>
             fst (list_pdfs_in_base pd)
               = ''Os seguintes '' @ str_nat (length (pdf_files pd))
                 @ '' arquivo(s) PDF estao na base:'' @ newline @ newline
                 @ join newline
                     (map (\<lambda>i. str_nat (i + 1) @ ''. '' @ path_name (pdf_files pd ! i))
                          [0..<length (pdf_files pd)])))"
proof -
  have q: "is_question_about_pdfs_in_base ''quais pdfs estao na base''"
    by (simp add: is_question_about_pdfs_in_base_def strip_def lower_def lower_char_def
        is_space_def TERMOS_BASE_def TERMOS_ARQUIVO_def)
  have a: "answer_question question retriever llm pd history filter_source vectorstore
          = (Inr (fst (list_pdfs_in_base pd), []), [])"
    if "is_question_about_pdfs_in_base question"
    using that by (simp add: answer_question_def)
  have l: "fst (list_pdfs_in_base pd)
               = ''Os seguintes '' @ str_nat (length (pdf_files pd))
                 @ '' arquivo(s) PDF estao na base:'' @ newline @ newline
                 @ join newline
                     (map (\<lambda>i. str_nat (i + 1) @ ''. '' @ path_name (pdf_files pd ! i))
                          [0..<length (pdf_files pd)])"
    if "dir_exists pd \<and> pdf_files pd \<noteq> []"
    using that
      map_enumerate_nth [of "\<lambda>i p. str_nat (i + 1) @ ''. '' @ path_name p" "pdf_files pd"]
    by (simp add: list_pdfs_in_base_def Let_def)
  show ?thesis using q a l by blast
qed

theorem corpus_question_lists_pdfs_witness:
  "is_question_about_pdfs_in_base ''quais pdfs estao na base''
   \<and> dir_exists one_pdf \<and> pdf_files one_pdf \<noteq> []
   \<and> answer_question ''quais pdfs estao na base'' fixed_retriever canned_llm one_pdf None None
        (Some old_index)
       = (Inr (''Os seguintes 1 arquivo(s) PDF estao na base:'' @ newline @ newline
               @ ''1. x.pdf'', []), [])"
proof -
  note t = corpus_question_lists_pdfs [of "''quais pdfs estao na base''" fixed_retriever
      canned_llm one_pdf None None "Some old_index"]
  have q: "is_question_about_pdfs_in_base ''quais pdfs estao na base''"
    using t by (rule conjunct1)
  have e: "dir_exists one_pdf \<and> pdf_files one_pdf \<noteq> []" by (simp add: one_pdf_def)
  have a: "answer_question ''quais pdfs estao na base'' fixed_retriever canned_llm one_pdf
      None None (Some old_index) = (Inr (fst (list_pdfs_in_base one_pdf), []), [])"
    using t q by blast
  have "fst (list_pdfs_in_base one_pdf)
      = ''Os seguintes '' @ str_nat (length (pdf_files one_pdf))
                 @ '' arquivo(s) PDF estao na base:'' @ newline @ newline
                 @ join newline
                     (map (\<lambda>i. str_nat (i + 1) @ ''. '' @ path_name (pdf_files one_pdf ! i))
                          [0..<length (pdf_files one_pdf)])"
    using t q e by blast
  then have l: "fst (list_pdfs_in_base one_pdf)
      = ''Os seguintes 1 arquivo(s) PDF estao na base:'' @ newline @ newline @ ''1. x.pdf''"
    by (simp add: one_pdf_def str_nat.simps digit_char_def path_name_def)
  show ?thesis using q e a [unfolded l] by (intro conjI) simp_all
qed

section \<open>Claims about the index store\<close>

subsection \<open>The rebuild path\<close>

lemma empty_persist_dir:
  "\<not> non_empty (d :: 'v persist_dir) \<Longrightarrow> d = empty_dir"
  by (cases d) (simp add: non_empty_def empty_dir_def)

lemma rebuild_start:
  assumes "force_reindex env \<or> \<not> non_empty (mkdir (persist st))"
  shows "\<not> (\<not> force_reindex env \<and> non_empty (mkdir (persist st)))"
    and "(if force_reindex env then empty_dir else mkdir (persist st))
           = (empty_dir :: 'v persist_dir)"
  using assms empty_persist_dir [of "mkdir (persist st)"] by auto

text \<open>
  A directory that holds the chunk list and no vectors is opened as an index by a call
  without \<^verbatim>\<open>REINDEX\<close>, in the process that left it and in any later one.
\<close>

lemma reuse_chunk_list:
  assumes "\<not> force_reindex env"
  shows "build_vectorstore env
           \<lparr>persist = Some \<lparr>chunks_pkl = Some (Pickled cs), chroma_data = None\<rparr>,
            client_open = c\<rparr>
         = (Inr (Chroma [], Some cs),
            \<lparr>persist = Some \<lparr>chunks_pkl = Some (Pickled cs), chroma_data = None\<rparr>,
             client_open = True\<rparr>)"
  using assms
  by (simp add: build_vectorstore_def Let_def mkdir_def non_empty_def stored_entries_def)

text \<open>
  The failures of the index write: a provider that raises, no chunk to index, and a
  forced reindex in a process that already holds a client on the directory.
\<close>

lemma from_documents_provider_fails:
  "\<not> stale \<Longrightarrow> chunks \<noteq> [] \<Longrightarrow> embed env chunks = Inl e
     \<Longrightarrow> from_documents env stale chunks = Inl e"
  by (simp add: from_documents_def)

lemma build_without_chunks_fails:
  assumes "force_reindex env \<or> \<not> non_empty (mkdir (persist st))"
    and "dir_exists (corpus env)" and "pdf_files (corpus env) \<noteq> []"
    and "corpus_chunks env = []"
  shows "\<exists>e. fst (build_vectorstore env st) = Inl e"
  using rebuild_start [OF assms(1)] assms(2-4)
  by (simp add: build_vectorstore_def Let_def from_documents_def)

lemma forced_reindex_with_open_client_fails:
  assumes "force_reindex env" and "client_open st"
    and "dir_exists (corpus env)" and "pdf_files (corpus env) \<noteq> []"
  shows "fst (build_vectorstore env st) = Inl (ChromaError ''readonly database'')"
  using assms by (simp add: build_vectorstore_def Let_def from_documents_def)

text \<open>
  C8. On the rebuild path (\<^verbatim>\<open>REINDEX\<close> set, or a persist directory that is absent or
  empty), when the corpus directory does not exist or holds no PDF, \<^verbatim>\<open>_build_vectorstore\<close>
  raises a \<^verbatim>\<open>ValueError\<close> whose message contains the resolved path of the corpus
  directory; it returns no index.
\<close>

theorem rebuild_without_pdfs_fails:
  assumes "force_reindex env \<or> \<not> non_empty (mkdir (persist st))"
    and "\<not> dir_exists (corpus env) \<or> pdf_files (corpus env) = []"
  shows "fst (build_vectorstore env st)
           = Inl (ValueError
                ((if dir_exists (corpus env) then ''Nenhum PDF encontrado em ''
                  else ''Pasta nao encontrada: '') @ resolved (corpus env)))
         \<and> (\<exists>msg. fst (build_vectorstore env st) = Inl (ValueError msg)
                    \<and> str_in (resolved (corpus env)) msg)"
proof -
  have "fst (build_vectorstore env st)
           = Inl (ValueError
                ((if dir_exists (corpus env) then ''Nenhum PDF encontrado em ''
                  else ''Pasta nao encontrada: '') @ resolved (corpus env)))"
    using rebuild_start [OF assms(1)] assms(2)
    by (auto simp: build_vectorstore_def Let_def)
  then show ?thesis using str_in_suffix by blast
qed

theorem rebuild_without_pdfs_fails_witness:
  "force_reindex no_pdfs
   \<and> pdf_files (corpus no_pdfs) = []
   \<and> fst (build_vectorstore no_pdfs
            \<lparr>persist = Some \<lparr>chunks_pkl = Some (Pickled []), chroma_data = Some []\<rparr>,
             client_open = False\<rparr>)
       = Inl (ValueError ''Nenhum PDF encontrado em /app/Base'')"
proof -
  define st :: "nat store_state" where
    "st = \<lparr>persist = Some \<lparr>chunks_pkl = Some (Pickled []), chroma_data = Some []\<rparr>,
           client_open = False\<rparr>"
  have f: "force_reindex no_pdfs"
    by (simp add: force_reindex_def no_pdfs_def provider_down_def lower_def lower_char_def)
  have p: "pdf_files (corpus no_pdfs) = []" by (simp add: no_pdfs_def)
  have f': "force_reindex no_pdfs \<or> \<not> non_empty (mkdir (persist st))"
    using f by (rule disjI1)
  have p': "\<not> dir_exists (corpus no_pdfs) \<or> pdf_files (corpus no_pdfs) = []"
    using p by (rule disjI2)
  have "fst (build_vectorstore no_pdfs st)
       = Inl (ValueError
                ((if dir_exists (corpus no_pdfs) then ''Nenhum PDF encontrado em ''
                  else ''Pasta nao encontrada: '') @ resolved (corpus no_pdfs)))"
    using rebuild_without_pdfs_fails [OF f' p'] by (rule conjunct1)
  then have r: "fst (build_vectorstore no_pdfs st)
       = Inl (ValueError ''Nenhum PDF encontrado em /app/Base'')"
    by (simp add: no_pdfs_def)
  show ?thesis using f p r [unfolded st_def] by (intro conjI)
qed

text \<open>
  C7 (as amended). A full rebuild writes the chunk list to the persist directory before
  the embedding step and rolls nothing back: when the embedding step fails, the exception
  reaches the caller, the persist directory is left non-empty with the chunk list and no
  vectors, and a later call without \<^verbatim>\<open>REINDEX\<close> reuses that directory as an existing
  index, returning an empty vector store together with the chunk list.
\<close>

theorem failed_build_keeps_chunk_list:
  assumes "force_reindex env \<or> \<not> non_empty (mkdir (persist st))"
    and "dir_exists (corpus env)"
    and "pdf_files (corpus env) \<noteq> []"
    and "from_documents env (force_reindex env \<and> client_open st) (corpus_chunks env) = Inl e"
    and "left = \<lparr>chunks_pkl = Some (Pickled (corpus_chunks env)), chroma_data = None\<rparr>"
  shows "build_vectorstore env st = (Inl e, \<lparr>persist = Some left, client_open = True\<rparr>)
         \<and> non_empty left
         \<and> (\<not> force_reindex env' \<longrightarrow>
              build_vectorstore env' \<lparr>persist = Some left, client_open = c\<rparr>
                = (Inr (Chroma [], Some (corpus_chunks env)),
                   \<lparr>persist = Some left, client_open = True\<rparr>))"
proof -
  have b: "build_vectorstore env st = (Inl e, \<lparr>persist = Some left, client_open = True\<rparr>)"
    using rebuild_start [OF assms(1)] assms(2-4)
    by (simp add: build_vectorstore_def Let_def empty_dir_def assms(5))
  have n: "non_empty left"
    by (simp add: assms(5) non_empty_def)
  have r: "build_vectorstore env' \<lparr>persist = Some left, client_open = c\<rparr>
      = (Inr (Chroma [], Some (corpus_chunks env)), \<lparr>persist = Some left, client_open = True\<rparr>)"
    if "\<not> force_reindex env'"
    unfolding assms(5) using that by (rule reuse_chunk_list)
  show ?thesis using b n r by blast
qed

theorem failed_build_keeps_chunk_list_witness:
  "\<not> non_empty (mkdir (persist \<lparr>persist = None :: nat persist_dir option, client_open = False\<rparr>))
   \<and> dir_exists (corpus provider_down)
   \<and> pdf_files (corpus provider_down) \<noteq> []
   \<and> from_documents provider_down False (corpus_chunks provider_down)
       = Inl (ProviderError ''timeout'')
   \<and> \<not> force_reindex provider_down
   \<and> fst (build_vectorstore provider_down \<lparr>persist = None, client_open = False\<rparr>)
       = Inl (ProviderError ''timeout'')
   \<and> build_vectorstore provider_down
        (snd (build_vectorstore provider_down \<lparr>persist = None, client_open = False\<rparr>))
       = (Inr (Chroma [], Some (corpus_chunks provider_down)),
          \<lparr>persist = Some \<lparr>chunks_pkl = Some (Pickled (corpus_chunks provider_down)),
                            chroma_data = None\<rparr>,
           client_open = True\<rparr>)"
proof -
  define st :: "nat store_state" where "st = \<lparr>persist = None, client_open = False\<rparr>"
  define left :: "nat persist_dir" where
    "left = \<lparr>chunks_pkl = Some (Pickled (corpus_chunks provider_down)), chroma_data = None\<rparr>"
  have nf: "\<not> force_reindex provider_down"
    by (simp add: force_reindex_def provider_down_def lower_def)
  have ne: "\<not> non_empty (mkdir (persist st))"
    by (simp add: st_def mkdir_def non_empty_def empty_dir_def)
  have h1: "force_reindex provider_down \<or> \<not> non_empty (mkdir (persist st))"
    using ne by (rule disjI2)
  have h2: "dir_exists (corpus provider_down)" by (simp add: provider_down_def one_pdf_def)
  have h3: "pdf_files (corpus provider_down) \<noteq> []" by (simp add: provider_down_def one_pdf_def)
  have c: "corpus_chunks provider_down \<noteq> []"
    by (simp add: corpus_chunks_def provider_down_def one_pdf_def load_pdf_def)
  have e: "embed provider_down (corpus_chunks provider_down) = Inl (ProviderError ''timeout'')"
    by (simp add: provider_down_def)
  have h4: "from_documents provider_down False (corpus_chunks provider_down)
      = Inl (ProviderError ''timeout'')"
    using c e by (simp add: from_documents_def)
  have h4': "from_documents provider_down (force_reindex provider_down \<and> client_open st)
      (corpus_chunks provider_down) = Inl (ProviderError ''timeout'')"
    using h4 nf by simp
  note t = failed_build_keeps_chunk_list
    [where env = provider_down and st = st and env' = provider_down and c = True,
     OF h1 h2 h3 h4' left_def]
  have b: "build_vectorstore provider_down st
      = (Inl (ProviderError ''timeout''), \<lparr>persist = Some left, client_open = True\<rparr>)"
    using t by (rule conjunct1)
  then have b1: "fst (build_vectorstore provider_down st) = Inl (ProviderError ''timeout'')"
    by simp
  have "build_vectorstore provider_down \<lparr>persist = Some left, client_open = True\<rparr>
       = (Inr (Chroma [], Some (corpus_chunks provider_down)),
          \<lparr>persist = Some left, client_open = True\<rparr>)"
    using t nf by blast
  then have r: "build_vectorstore provider_down (snd (build_vectorstore provider_down st))
       = (Inr (Chroma [], Some (corpus_chunks provider_down)),
          \<lparr>persist = Some left, client_open = True\<rparr>)"
    by (simp add: b)
  show ?thesis
    using ne h2 h3 h4 nf b1 r unfolding st_def left_def by (intro conjI)
qed

text \<open>
  C7 as stated fails: with no persist directory, a corpus of one PDF and an embedding
  provider that is down, the build raises and leaves a non-empty directory holding the
  chunk list and no vectors, and the next call opens it as an index.
\<close>

theorem failed_build_counterexample:
  "fst (build_vectorstore provider_down \<lparr>persist = None, client_open = False\<rparr>)
     = Inl (ProviderError ''timeout'')
   \<and> persist (snd (build_vectorstore provider_down \<lparr>persist = None, client_open = False\<rparr>))
       = Some \<lparr>chunks_pkl = Some (Pickled (corpus_chunks provider_down)), chroma_data = None\<rparr>
   \<and> non_empty \<lparr>chunks_pkl = Some (Pickled (corpus_chunks provider_down)),
                 chroma_data = None :: (document \<times> nat) list option\<rparr>
   \<and> length (corpus_chunks provider_down) = 1
   \<and> fst (build_vectorstore provider_down
            (snd (build_vectorstore provider_down \<lparr>persist = None, client_open = False\<rparr>)))
       = Inr (Chroma [], Some (corpus_chunks provider_down))"
proof -
  have c: "length (corpus_chunks provider_down) = 1"
    by (simp add: corpus_chunks_def provider_down_def one_pdf_def load_pdf_def)
  then have c': "corpus_chunks provider_down \<noteq> []" by auto
  have e: "embed provider_down (corpus_chunks provider_down) = Inl (ProviderError ''timeout'')"
    by (simp add: provider_down_def)
  have f: "\<not> force_reindex provider_down"
    by (simp add: force_reindex_def provider_down_def lower_def)
  have d: "dir_exists (corpus provider_down) \<and> pdf_files (corpus provider_down) \<noteq> []"
    by (simp add: provider_down_def one_pdf_def)
  have b: "build_vectorstore provider_down \<lparr>persist = None, client_open = False\<rparr>
      = (Inl (ProviderError ''timeout''),
         \<lparr>persist = Some \<lparr>chunks_pkl = Some (Pickled (corpus_chunks provider_down)),
                           chroma_data = None\<rparr>,
          client_open = True\<rparr>)"
    using c' e f d
    by (simp add: build_vectorstore_def Let_def mkdir_def non_empty_def empty_dir_def
        from_documents_def)
  have n: "non_empty \<lparr>chunks_pkl = Some (Pickled (corpus_chunks provider_down)),
                 chroma_data = None :: (document \<times> nat) list option\<rparr>"
    by (simp add: non_empty_def)
  have r: "fst (build_vectorstore provider_down
        \<lparr>persist = Some \<lparr>chunks_pkl = Some (Pickled (corpus_chunks provider_down)),
                          chroma_data = None\<rparr>,
         client_open = True\<rparr>)
       = Inr (Chroma [], Some (corpus_chunks provider_down))"
    using f
    by (simp add: build_vectorstore_def Let_def mkdir_def non_empty_def stored_entries_def)
  show ?thesis using c n r by (simp add: b)
qed

end
